theory Spec2Isabelle
  imports Complex_Main "HOL-Library.Sublist" "HOL-Library.Multiset"
begin

section \<open>Data model\<close>

text \<open>
  The deals and orders tables are pandas data frames in the source; here a table is the
  list of its rows, in row order. A timestamp is the number of seconds since the epoch
  (the source builds the column with \<open>pd.to_datetime(..., unit='s')\<close>). Prices, volumes
  and profits are Python floats; they are modelled as real numbers, so rounding of
  floating-point arithmetic is not part of the model. A float that may be NaN is a
  \<open>real option\<close> with \<open>None\<close> for NaN (every comparison with NaN is false).
\<close>

record Deal =
  time :: int
  symbol :: string
  deal_type :: int
  price :: real
  volume :: real
  profit :: real

record Order =
  order_symbol :: string
  order_type :: int
  price_open :: real
  sl :: real
  tp :: real

text \<open>
  An f-string of the source is kept as the list of its parts: literal text, a float
  printed with a fixed number of decimals (\<open>{x:.2f}\<close>), a value printed with its default
  formatting, and an integer counter.
\<close>

datatype fpart = Lit string | Fixed nat real | Shown real | Count int

type_synonym fstring = "fpart list"

datatype mvalue = Num real | NaN | Txt string

record TradePattern =
  pattern_name :: string
  confidence :: real
  description :: string
  evidence :: "fstring list"
  metrics :: "(string \<times> mvalue) list"

text \<open>A Python float that may be \<open>float('inf')\<close>.\<close>

datatype xfloat = Finite real | Inf

fun xgreater :: "xfloat \<Rightarrow> real \<Rightarrow> bool" where
  "xgreater (Finite x) c = (x > c)"
| "xgreater Inf c = True"

fun xless :: "xfloat \<Rightarrow> real \<Rightarrow> bool" where
  "xless (Finite x) c = (x < c)"
| "xless Inf c = False"

record Statistics =
  total_trades :: nat
  winning_trades :: nat
  losing_trades :: nat
  break_even_trades :: nat
  total_profit :: real
  average_profit :: real
  max_profit :: real
  max_loss :: real
  average_volume :: real
  total_volume :: real
  win_rate :: real
  profit_factor :: xfloat
  most_active_hour :: int
  most_active_day :: int
  avg_time_between_trades_minutes :: "real option"
  median_time_between_trades_minutes :: "real option"

record Characteristics =
  statistics :: "Statistics option"
  pattern_count :: nat
  analysis_period_days :: int

record AlgorithmSignature =
  likely_algorithm :: string
  sig_confidence :: real
  patterns :: "TradePattern list"
  characteristics :: Characteristics
  timestamp :: string

section \<open>Numeric reductions of numpy and pandas\<close>

definition mean :: "real list \<Rightarrow> real" where
  "mean xs = sum_list xs / real (length xs)"

definition sq_dev :: "real list \<Rightarrow> real" where
  "sq_dev xs = sum_list (map (\<lambda>x. (x - mean xs)\<^sup>2) xs)"

text \<open>\<open>np.std\<close>: the population standard deviation.\<close>

definition np_std :: "real list \<Rightarrow> real" where
  "np_std xs = sqrt (sq_dev xs / real (length xs))"

text \<open>\<open>Series.std()\<close>: the sample standard deviation, NaN below two observations.\<close>

definition pd_std :: "real list \<Rightarrow> real option" where
  "pd_std xs = (if length xs < 2 then None
                else Some (sqrt (sq_dev xs / real (length xs - 1))))"

text \<open>\<open>Series.mean()\<close> and \<open>Series.median()\<close> after the NaN entries are dropped.\<close>

definition pd_mean :: "real list \<Rightarrow> real option" where
  "pd_mean xs = (if xs = [] then None else Some (mean xs))"

definition median :: "real list \<Rightarrow> real" where
  "median xs = (let s = sort xs; n = length xs
                in if even n then (s ! (n div 2 - 1) + s ! (n div 2)) / 2
                   else s ! (n div 2))"

definition pd_median :: "real list \<Rightarrow> real option" where
  "pd_median xs = (if xs = [] then None else Some (median xs))"

text \<open>\<open>unique()\<close>: the distinct values in order of first occurrence.\<close>

definition unique :: "'a list \<Rightarrow> 'a list" where
  "unique xs = rev (remdups (rev xs))"

text \<open>
  \<open>value_counts()\<close>: the distinct values with their counts, by decreasing count; values
  with the same count are kept in order of first occurrence.
\<close>

definition value_counts :: "'a list \<Rightarrow> ('a \<times> nat) list" where
  "value_counts xs =
     sort_key (\<lambda>vc. - int (snd vc)) (map (\<lambda>v. (v, count_list xs v)) (unique xs))"

text \<open>\<open>mode().values[0]\<close>: the least of the most frequent values.\<close>

definition mode0 :: "int list \<Rightarrow> int" where
  "mode0 xs = (let top = snd (hd (value_counts xs))
               in hd (sort (filter (\<lambda>v. count_list xs v = top) (unique xs))))"

text \<open>The fields \<open>dt.hour\<close>, \<open>dt.dayofweek\<close> (Monday is 0), \<open>dt.date\<close> of a timestamp.\<close>

definition hour :: "int \<Rightarrow> int" where
  "hour t = (t div 3600) mod 24"

definition date :: "int \<Rightarrow> int" where
  "date t = t div 86400"

definition dayofweek :: "int \<Rightarrow> int" where
  "dayofweek t = (date t + 3) mod 7"

text \<open>\<open>diff().dt.total_seconds() / 60\<close> without the leading NaN.\<close>

fun minute_diffs :: "int list \<Rightarrow> real list" where
  "minute_diffs (a # b # ts) = (real_of_int (b - a) / 60) # minute_diffs (b # ts)"
| "minute_diffs ts = []"

section \<open>Signature resolver\<close>

text \<open>
  \<open>str(pattern_names)\<close> for names without quotes, backslashes or control characters
  (all names the detectors produce): each name in single quotes, separated by a comma
  and a space, in square brackets.
\<close>

fun py_join :: "string list \<Rightarrow> string" where
  "py_join [] = []"
| "py_join [n] = CHR 0x27 # n @ [CHR 0x27]"
| "py_join (n # ns) = CHR 0x27 # n @ CHR 0x27 # CHR '','' # CHR '' '' # py_join ns"

definition py_str :: "string list \<Rightarrow> string" where
  "py_str ns = CHR ''['' # py_join ns @ [CHR '']'']"

definition stats_win_rate :: "Statistics option \<Rightarrow> real" where
  "stats_win_rate stats = (case stats of None \<Rightarrow> 0 | Some s \<Rightarrow> win_rate s)"

definition stats_profit_factor :: "Statistics option \<Rightarrow> xfloat" where
  "stats_profit_factor stats = (case stats of None \<Rightarrow> Finite 0 | Some s \<Rightarrow> profit_factor s)"

definition determine_algorithm_type :: "TradePattern list \<Rightarrow> Statistics option \<Rightarrow> string" where
  "determine_algorithm_type ps stats =
     (let pattern_names = map pattern_name ps in
      if ''High-Frequency Trading (HFT)'' \<in> set pattern_names
        then ''High-Frequency Trading Bot''
      else if ''Scalping Strategy'' \<in> set pattern_names
        then (if ''Time-Scheduled Trading'' \<in> set pattern_names
              then ''Scheduled Scalping EA'' else ''Scalping Bot/EA'')
      else if ''Martingale/Anti-Martingale'' \<in> set pattern_names
        then (if sublist ''Grid'' (py_str pattern_names)
              then ''Grid Martingale EA'' else ''Martingale-Based EA'')
      else if ''Day Trading Strategy'' \<in> set pattern_names
        then (if ''Strict Risk Management (SL + TP)'' \<in> set pattern_names
              then ''Professional Day Trading EA'' else ''Day Trading Bot'')
      else if ''Swing Trading Strategy'' \<in> set pattern_names
        then ''Swing Trading Algorithm''
      else if ''Position Trading Strategy'' \<in> set pattern_names
        then ''Long-Term Position Trading EA''
      else if stats_win_rate stats < 40 \<and> xgreater (stats_profit_factor stats) 1.5
        then ''High Risk-Reward Trend Following EA''
      else if stats_win_rate stats > 70 \<and> xless (stats_profit_factor stats) 2
        then ''High Win-Rate Mean Reversion EA''
      else ''Custom/Hybrid Trading Algorithm'')"

section \<open>Statistics calculator\<close>

definition list_max :: "real list \<Rightarrow> real" where
  "list_max xs = fold max (tl xs) (hd xs)"

definition list_min :: "real list \<Rightarrow> real" where
  "list_min xs = fold min (tl xs) (hd xs)"

definition gross_profit :: "Deal list \<Rightarrow> real" where
  "gross_profit trade_deals = sum_list (filter (\<lambda>p. p > 0) (map profit trade_deals))"

definition gross_loss :: "Deal list \<Rightarrow> real" where
  "gross_loss trade_deals = \<bar>sum_list (filter (\<lambda>p. p < 0) (map profit trade_deals))\<bar>"

definition calculate_trade_statistics :: "Deal list \<Rightarrow> Statistics option" where
  "calculate_trade_statistics deals_df =
     (if deals_df = [] then None
      else let trade_deals = filter (\<lambda>d. deal_type d \<in> {0, 1}) deals_df in
        if trade_deals = [] then None
        else let profits = map profit trade_deals;
                 volumes = map volume trade_deals;
                 total = length trade_deals;
                 winning = length (filter (\<lambda>p. p > 0) profits);
                 time_diffs = minute_diffs (sort (map time trade_deals))
          in Some \<lparr>total_trades = total,
                   winning_trades = winning,
                   losing_trades = length (filter (\<lambda>p. p < 0) profits),
                   break_even_trades = length (filter (\<lambda>p. p = 0) profits),
                   total_profit = sum_list profits,
                   average_profit = mean profits,
                   max_profit = list_max profits,
                   max_loss = list_min profits,
                   average_volume = mean volumes,
                   total_volume = sum_list volumes,
                   win_rate = real winning / real total * 100,
                   profit_factor =
                     (if gross_loss trade_deals > 0
                      then Finite (gross_profit trade_deals / gross_loss trade_deals)
                      else if gross_profit trade_deals > 0 then Inf else Finite 0),
                   most_active_hour = mode0 (map (\<lambda>d. hour (time d)) trade_deals),
                   most_active_day = mode0 (map (\<lambda>d. dayofweek (time d)) trade_deals),
                   avg_time_between_trades_minutes = pd_mean time_diffs,
                   median_time_between_trades_minutes = pd_median time_diffs\<rparr>)"

section \<open>Core pattern detectors\<close>

subsection \<open>Position sizing\<close>

text \<open>
  The loop over \<open>range(1, len(volumes))\<close>: the state is the flag \<open>is_martingale\<close> and
  \<open>martingale_count\<close>; \<open>v0\<close> is \<open>volumes[0]\<close>. The lists are the profits from index
  \<open>i - 1\<close> and the volumes from index \<open>i - 1\<close> on.
\<close>

fun martingale_loop :: "real \<Rightarrow> real list \<Rightarrow> real list \<Rightarrow> bool \<times> nat \<Rightarrow> bool \<times> nat" where
  "martingale_loop v0 (p # ps) (v # w # vs) (is_martingale, martingale_count) =
     martingale_loop v0 ps (w # vs)
       (if p < 0 \<and> w \<ge> v * 1.8 then (is_martingale, martingale_count + 1)
        else if p > 0 \<and> w \<le> v0 * 1.2 then (is_martingale, martingale_count)
        else (False, martingale_count))"
| "martingale_loop v0 ps vs st = st"

definition detect_position_sizing_pattern :: "Deal list \<Rightarrow> TradePattern option" where
  "detect_position_sizing_pattern deals_df =
     (if deals_df = [] then None
      else let volumes = map volume deals_df;
               descr = ''Position sizing strategy analysis'' in
        if card (set volumes) = 1
        then Some \<lparr>pattern_name = ''Fixed Lot Size'', confidence = 0.95, description = descr,
                   evidence = [[Lit ''All trades use identical lot size: '', Shown (hd volumes)]],
                   metrics = [(''lot_size'', Num (hd volumes))]\<rparr>
        else if length volumes > 3
        then let profits = map profit deals_df;
                 martingale_count = snd (martingale_loop (hd volumes) profits volumes (True, 0)) in
          if real martingale_count > real (length volumes) * 0.3
          then Some \<lparr>pattern_name = ''Martingale/Anti-Martingale'', confidence = 0.8,
                     description = descr,
                     evidence = [[Lit ''Position size increases after losses in '',
                                  Count (int martingale_count), Lit '' instances'']],
                     metrics = [(''martingale_ratio'',
                                 Num (real martingale_count / real (length volumes)))]\<rparr>
          else Some \<lparr>pattern_name = ''Unknown'', confidence = 0.0, description = descr,
                     evidence = [], metrics = []\<rparr>
        else let volume_std = np_std volumes;
                 volume_mean = mean volumes;
                 cv = (if volume_mean > 0 then volume_std / volume_mean else 0) in
          if cv < 0.2
          then Some \<lparr>pattern_name = ''Consistent Proportional Sizing'', confidence = 0.7,
                     description = descr,
                     evidence = [[Lit ''Low variation in lot sizes (CV: '', Fixed 2 cv, Lit '')'']],
                     metrics = [(''coefficient_variation'', Num cv)]\<rparr>
          else Some \<lparr>pattern_name = ''Dynamic/Variable Sizing'', confidence = 0.6,
                     description = descr,
                     evidence = [[Lit ''High variation in lot sizes (CV: '', Fixed 2 cv, Lit '')'']],
                     metrics = [(''coefficient_variation'', Num cv)]\<rparr>)"

subsection \<open>Time-based patterns\<close>

definition dow_names :: "string list" where
  "dow_names = [''Monday'', ''Tuesday'', ''Wednesday'', ''Thursday'', ''Friday'',
                ''Saturday'', ''Sunday'']"

definition detect_time_based_patterns :: "Deal list \<Rightarrow> TradePattern option" where
  "detect_time_based_patterns deals_df =
     (if deals_df = [] then None
      else let hour_counts = value_counts (map (\<lambda>d. hour (time d)) deals_df);
               top_hour = fst (hd hour_counts);
               top_hour_pct = real (snd (hd hour_counts)) / real (length deals_df) * 100;
               hour_evidence = [Fixed 1 top_hour_pct, Lit ''% of trades occur at hour '',
                                Count top_hour];
               (name, confidence0, evidence0) =
                 (if top_hour_pct > 50 then (''Time-Scheduled Trading'', 0.85, [hour_evidence])
                  else if top_hour_pct > 30
                    then (''Preferred Time Window Trading'', 0.7, [hour_evidence])
                  else (''Continuous/24-Hour Trading'', 0.6,
                        [[Lit ''Trades distributed across multiple hours'']]));
               metrics0 = [(''top_trading_hour'', Num (real_of_int top_hour)),
                           (''top_hour_concentration'', Num top_hour_pct)];
               time_diffs = minute_diffs (sort (map time deals_df));
               median_interval = median time_diffs;
               regular = (time_diffs \<noteq> [] \<and>
                          (case pd_std time_diffs of None \<Rightarrow> False
                           | Some std_interval \<Rightarrow>
                               std_interval < median_interval * 0.3 \<and> median_interval < 60));
               dow_counts = value_counts (map (\<lambda>d. dayofweek (time d)) deals_df);
               top_dow = dow_names ! nat (fst (hd dow_counts));
               top_dow_pct = real (snd (hd dow_counts)) / real (length deals_df) * 100
        in Some \<lparr>pattern_name = name,
                 confidence = (if regular then max confidence0 0.8 else confidence0),
                 description = ''Time-based trading pattern analysis'',
                 evidence = evidence0
                   @ (if regular then [[Lit ''Regular trading intervals (~'',
                                        Fixed 1 median_interval, Lit '' minutes)'']] else [])
                   @ (if top_dow_pct > 40
                      then [[Lit ''Concentrated trading on '', Lit top_dow, Lit '' ('',
                             Fixed 1 top_dow_pct, Lit ''%)'']] else []),
                 metrics = metrics0
                   @ (if regular then [(''avg_interval_minutes'', Num median_interval)]
                      else [])\<rparr>)"

subsection \<open>Risk management\<close>

definition detect_risk_management_pattern :: "Deal list \<Rightarrow> Order list \<Rightarrow> TradePattern option" where
  "detect_risk_management_pattern deals_df orders_df =
     (if deals_df = [] then None
      else let sl_usage = real (length (filter (\<lambda>r. sl r > 0) orders_df))
                            / real (length orders_df) * 100;
               tp_usage = real (length (filter (\<lambda>r. tp r > 0) orders_df))
                            / real (length orders_df) * 100;
               sl_evidence = [Lit ''Stop Loss used in '', Fixed 1 sl_usage, Lit ''% of trades''];
               tp_evidence = [Lit ''Take Profit used in '', Fixed 1 tp_usage, Lit ''% of trades''];
               (name, conf, evidence0, metrics0) =
                 (if orders_df = []
                  then (''Unknown Risk Management'', 0.5, [], [])
                  else let m = [(''stop_loss_usage_pct'', Num sl_usage),
                                (''take_profit_usage_pct'', Num tp_usage)] in
                    if sl_usage > 80 \<and> tp_usage > 80
                      then (''Strict Risk Management (SL + TP)'', 0.9, [sl_evidence, tp_evidence], m)
                    else if sl_usage > 80
                      then (''Conservative (SL Only)'', 0.8, [sl_evidence], m)
                    else if tp_usage > 80
                      then (''Profit Target Based'', 0.75, [tp_evidence], m)
                    else (''Flexible/Manual Risk Management'', 0.6,
                          [[Lit ''Variable use of stop loss and take profit'']], m));
               profits = map profit deals_df;
               wins = filter (\<lambda>p. p > 0) profits;
               losses = filter (\<lambda>p. p < 0) profits;
               avg_win = mean wins;
               avg_loss = \<bar>mean losses\<bar>;
               risk_reward = (if avg_loss > 0 then avg_win / avg_loss else 0);
               both = (length wins > 0 \<and> length losses > 0)
        in Some \<lparr>pattern_name = name, confidence = conf,
                 description = ''Risk management strategy analysis'',
                 evidence = evidence0
                   @ (if both \<and> risk_reward > 2
                      then [[Lit ''High risk-reward ratio: '', Fixed 2 risk_reward]]
                      else if both \<and> risk_reward < 0.5
                      then [[Lit ''Low risk-reward ratio: '', Fixed 2 risk_reward,
                             Lit '' (potential martingale)'']]
                      else []),
                 metrics = metrics0
                   @ (if both then [(''average_win'', Num avg_win),
                                    (''average_loss'', Num avg_loss),
                                    (''risk_reward_ratio'', Num risk_reward)] else [])\<rparr>)"

subsection \<open>Trading frequency\<close>

text \<open>\<open>groupby('date').size()\<close>: the number of deals of each date, by increasing date.\<close>

definition trades_per_day :: "Deal list \<Rightarrow> real list" where
  "trades_per_day deals_df =
     (let dates = map (\<lambda>d. date (time d)) deals_df
      in map (\<lambda>k. real (count_list dates k)) (sort (remdups dates)))"

definition detect_trading_frequency_pattern :: "Deal list \<Rightarrow> TradePattern option" where
  "detect_trading_frequency_pattern deals_df =
     (if deals_df = [] then None
      else let avg_trades_per_day = mean (trades_per_day deals_df);
               std_trades_per_day = pd_std (trades_per_day deals_df);
               (name, confidence0) =
                 (if avg_trades_per_day > 50 then (''High-Frequency Trading (HFT)'', 0.85)
                  else if avg_trades_per_day > 20 then (''Scalping Strategy'', 0.8)
                  else if avg_trades_per_day > 5 then (''Day Trading Strategy'', 0.75)
                  else if avg_trades_per_day > 1 then (''Swing Trading Strategy'', 0.7)
                  else (''Position Trading Strategy'', 0.7));
               consistent = (case std_trades_per_day of None \<Rightarrow> False
                             | Some s \<Rightarrow> s < avg_trades_per_day * 0.3)
        in Some \<lparr>pattern_name = name,
                 confidence = (if consistent then confidence0 + 0.05 else confidence0),
                 description = ''Trading frequency analysis'',
                 evidence = [[Lit ''Average '', Fixed 1 avg_trades_per_day, Lit '' trades per day''],
                             (if consistent then [Lit ''Consistent daily trading frequency'']
                              else [Lit ''Variable daily trading frequency''])],
                 metrics = [(''avg_trades_per_day'', Num avg_trades_per_day),
                            (''std_trades_per_day'',
                             (case std_trades_per_day of None \<Rightarrow> NaN | Some s \<Rightarrow> Num s))]\<rparr>)"

subsection \<open>Symbol concentration\<close>

definition detect_symbol_pattern :: "Deal list \<Rightarrow> TradePattern option" where
  "detect_symbol_pattern deals_df =
     (if deals_df = [] then None
      else let symbol_counts = value_counts (map symbol deals_df);
               total_symbols = length symbol_counts;
               top_symbol = fst (hd symbol_counts);
               top_symbol_pct = real (snd (hd symbol_counts)) / real (length deals_df) * 100;
               different = [Lit ''Trades '', Count (int total_symbols),
                            Lit '' different instruments''];
               (name, conf, ev) =
                 (if total_symbols = 1
                    then (''Single Instrument Specialist'', 0.95,
                          [Lit ''Only trades '', Lit top_symbol])
                  else if top_symbol_pct > 70
                    then (''Focused Instrument Strategy'', 0.85,
                          [Fixed 1 top_symbol_pct, Lit ''% concentration on '', Lit top_symbol])
                  else if total_symbols \<le> 5 then (''Multi-Instrument Strategy'', 0.75, different)
                  else (''Diversified Portfolio Strategy'', 0.7, different))
        in Some \<lparr>pattern_name = name, confidence = conf,
                 description = ''Instrument selection analysis'',
                 evidence = [ev],
                 metrics = [(''total_symbols_traded'', Num (real total_symbols)),
                            (''top_symbol'', Txt top_symbol),
                            (''top_symbol_concentration'', Num top_symbol_pct)]\<rparr>)"

section \<open>Signature aggregation\<close>

definition list_max_int :: "int list \<Rightarrow> int" where
  "list_max_int xs = fold max (tl xs) (hd xs)"

definition list_min_int :: "int list \<Rightarrow> int" where
  "list_min_int xs = fold min (tl xs) (hd xs)"

text \<open>The patterns of the five detectors, in call order, with the absent ones left out.\<close>

definition detect_all :: "Deal list \<Rightarrow> Order list \<Rightarrow> TradePattern list" where
  "detect_all deals_df orders_df =
     List.map_filter (\<lambda>p. p)
       [detect_position_sizing_pattern deals_df,
        detect_time_based_patterns deals_df,
        detect_risk_management_pattern deals_df orders_df,
        detect_trading_frequency_pattern deals_df,
        detect_symbol_pattern deals_df]"

text \<open>
  The first argument is what \<open>datetime.now().isoformat()\<close> returns at the call: the
  clock is the only input of the function besides the two tables.
\<close>

definition identify_algorithm_type :: "string \<Rightarrow> Deal list \<Rightarrow> Order list \<Rightarrow> AlgorithmSignature" where
  "identify_algorithm_type now deals_df orders_df =
     (let ps = detect_all deals_df orders_df;
          stats = calculate_trade_statistics deals_df;
          avg_confidence = (if ps \<noteq> [] then sum_list (map confidence ps) / real (length ps)
                            else 0.0)
      in \<lparr>likely_algorithm = determine_algorithm_type ps stats,
          sig_confidence = avg_confidence,
          patterns = ps,
          characteristics =
            \<lparr>statistics = stats,
             pattern_count = length ps,
             analysis_period_days =
               (if deals_df \<noteq> []
                then (list_max_int (map time deals_df) - list_min_int (map time deals_df))
                       div 86400
                else 0)\<rparr>,
          timestamp = now\<rparr>)"

section \<open>Advanced analytics\<close>

text \<open>
  Each detector of the advanced module returns a dictionary; a key that a return
  statement leaves out is an optional field that is \<open>None\<close>.

  \<open>sort_values('time')\<close> runs pandas' default sort, which is not stable: rows with the
  same timestamp may come out in any order. A detector that reads more than the time
  column of the sorted table takes the sort as its first argument, and \<open>sorts_by_time\<close>
  says what is known of it: the result has the rows of the table, by increasing time.
  Where only the time column of the sorted table is read, the sorted times are used.
\<close>

definition sorts_by_time :: "(Deal list \<Rightarrow> Deal list) \<Rightarrow> bool" where
  "sorts_by_time srt \<longleftrightarrow> (\<forall>df. mset (srt df) = mset df \<and> sorted (map time (srt df)))"

subsection \<open>Grid trading\<close>

record GridResult =
  is_grid :: bool
  grid_confidence :: real
  grid_evidence :: "fstring list option"
  grid_spacing :: "real option"

text \<open>\<open>np.diff\<close>: the differences of consecutive entries.\<close>

fun np_diff :: "real list \<Rightarrow> real list" where
  "np_diff (a # b # xs) = (b - a) # np_diff (b # xs)"
| "np_diff xs = []"

text \<open>The pending limit orders of one symbol, when the symbol has at least 5 orders.\<close>

definition grid_step :: "Order list \<Rightarrow> string \<Rightarrow> GridResult \<Rightarrow> GridResult" where
  "grid_step orders_df smb results =
     (let symbol_orders = filter (\<lambda>r. order_symbol r = smb) orders_df in
      if length symbol_orders < 5 then results
      else let pending_orders = filter (\<lambda>r. order_type r \<in> {2, 3}) symbol_orders in
        if length pending_orders \<ge> 3
        then let price_diffs = np_diff (sort (map price_open pending_orders)) in
          if length price_diffs > 0
          then let mean_diff = mean price_diffs;
                   std_diff = np_std price_diffs in
            if std_diff < mean_diff * 0.3
            then \<lparr>is_grid = True, grid_confidence = 0.8,
                  grid_evidence = map_option (\<lambda>ev. ev
                    @ [[Lit ''Regular price intervals detected for '', Lit smb,
                        Lit '' (avg: '', Fixed 5 mean_diff, Lit '')'']]) (grid_evidence results),
                  grid_spacing = Some mean_diff\<rparr>
            else results
          else results
        else results)"

definition detect_grid_trading :: "Deal list \<Rightarrow> Order list \<Rightarrow> GridResult" where
  "detect_grid_trading deals_df orders_df =
     (if deals_df = [] \<or> orders_df = []
      then \<lparr>is_grid = False, grid_confidence = 0.0, grid_evidence = None, grid_spacing = None\<rparr>
      else fold (grid_step orders_df) (unique (map symbol deals_df))
             \<lparr>is_grid = False, grid_confidence = 0.0, grid_evidence = Some [],
              grid_spacing = None\<rparr>)"

text \<open>
  What one pass of the loop looks at: the prices of the pending limit orders of the
  symbol, the differences of the sorted prices, and the three tests the pass makes
  before it sets the flag.
\<close>

definition pending_prices :: "Order list \<Rightarrow> string \<Rightarrow> real list" where
  "pending_prices orders_df smb =
     map price_open (filter (\<lambda>r. order_type r \<in> {2, 3})
                            (filter (\<lambda>r. order_symbol r = smb) orders_df))"

definition grid_diffs :: "Order list \<Rightarrow> string \<Rightarrow> real list" where
  "grid_diffs orders_df smb = np_diff (sort (pending_prices orders_df smb))"

definition grid_regular :: "Order list \<Rightarrow> string \<Rightarrow> bool" where
  "grid_regular orders_df smb \<longleftrightarrow>
     length (filter (\<lambda>r. order_symbol r = smb) orders_df) \<ge> 5
     \<and> length (pending_prices orders_df smb) \<ge> 3
     \<and> np_std (grid_diffs orders_df smb) < mean (grid_diffs orders_df smb) * 0.3"

subsection \<open>News-reaction trading\<close>

record NewsResult =
  is_news_trading :: bool
  news_confidence :: real
  clusters_detected :: "nat option"
  cluster_ratio :: "real option"
  news_evidence :: "fstring list option"

definition exceeds :: "real option \<Rightarrow> real \<Rightarrow> bool" where
  "exceeds d c = (case d of None \<Rightarrow> False | Some x \<Rightarrow> x > c)"

definition below :: "real option \<Rightarrow> real \<Rightarrow> bool" where
  "below d c = (case d of None \<Rightarrow> False | Some x \<Rightarrow> x < c)"

text \<open>
  The \<open>while i < len(time_diffs) - 2\<close> loop: the list is \<open>time_diffs\<close> from index \<open>i\<close> on,
  the number is \<open>clusters\<close>.
\<close>

fun news_loop :: "real option list \<Rightarrow> nat \<Rightarrow> nat" where
  "news_loop (d # e # f # rest) clusters =
     news_loop (e # f # rest)
       (if exceeds d 60 \<and> length (filter (\<lambda>y. below y 5) (take 3 (e # f # rest))) \<ge> 2
        then clusters + 1 else clusters)"
| "news_loop ds clusters = clusters"

definition detect_news_trading :: "Deal list \<Rightarrow> NewsResult" where
  "detect_news_trading deals_df =
     (if deals_df = []
      then \<lparr>is_news_trading = False, news_confidence = 0.0, clusters_detected = None,
            cluster_ratio = None, news_evidence = None\<rparr>
      else let time_diffs = None # map Some (minute_diffs (sort (map time deals_df)));
               clusters = news_loop time_diffs 0;
               ratio = (if length deals_df > 0 then real clusters / real (length deals_df)
                        else 0)
        in \<lparr>is_news_trading = (ratio > 0.1),
            news_confidence = min (ratio * 5) 0.9,
            clusters_detected = Some clusters,
            cluster_ratio = Some ratio,
            news_evidence =
              (if ratio > 0.1
               then Some [[Lit ''Detected '', Count (int clusters), Lit '' trading clusters''],
                          [Lit ''Trading pattern suggests reaction to external events'']]
               else None)\<rparr>)"

subsection \<open>Correlation trading\<close>

record CorrelationResult =
  is_correlation_trading :: bool
  correlation_confidence :: real
  simultaneous_ratio :: "real option"
  simultaneous_count :: "nat option"
  correlation_evidence :: "fstring list option"

text \<open>One pass of the loop over the groups: the state is the pair
  \<open>(simultaneous_multi_symbol, total_time_points)\<close>.\<close>

definition correlation_step :: "Deal list \<Rightarrow> int \<Rightarrow> nat \<times> nat \<Rightarrow> nat \<times> nat" where
  "correlation_step deals_df time_point st =
     (let group = filter (\<lambda>d. time d div 60 = time_point) deals_df
      in (if length (unique (map symbol group)) > 1 then fst st + 1 else fst st, snd st + 1))"

definition detect_correlation_trading :: "Deal list \<Rightarrow> CorrelationResult" where
  "detect_correlation_trading deals_df =
     (if deals_df = []
      then \<lparr>is_correlation_trading = False, correlation_confidence = 0.0,
            simultaneous_ratio = None, simultaneous_count = None,
            correlation_evidence = None\<rparr>
      else let time_points = sort (remdups (map (\<lambda>d. time d div 60) deals_df));
               (simultaneous_multi_symbol, total_time_points) =
                 fold (correlation_step deals_df) time_points (0, 0);
               ratio = (if total_time_points > 0
                        then real simultaneous_multi_symbol / real total_time_points else 0)
        in \<lparr>is_correlation_trading = (ratio > 0.3),
            correlation_confidence = min (ratio * 2) 0.85,
            simultaneous_ratio = Some ratio,
            simultaneous_count = Some simultaneous_multi_symbol,
            correlation_evidence =
              (if ratio > 0.3
               then Some [[Lit ''Trades multiple symbols simultaneously in '',
                           Count (int simultaneous_multi_symbol), Lit '' instances''],
                          [Lit ''Suggests correlation-based or basket trading strategy'']]
               else None)\<rparr>)"

subsection \<open>Hedging\<close>

record HedgingResult =
  is_hedging :: bool
  hedging_confidence :: real
  hedging_ratio :: "real option"
  hedging_instances :: "nat option"
  hedging_evidence :: "fstring list option"

text \<open>The loop over adjacent deals of one symbol: the state is
  \<open>(hedging_instances, total_opportunities)\<close>.\<close>

fun hedging_loop :: "Deal list \<Rightarrow> nat \<times> nat \<Rightarrow> nat \<times> nat" where
  "hedging_loop (deal1 # deal2 # ds) (instances, opportunities) =
     hedging_loop (deal2 # ds)
       (if real_of_int (time deal2 - time deal1) / 60 < 10 \<and> deal_type deal1 \<noteq> deal_type deal2
        then instances + 1 else instances, opportunities + 1)"
| "hedging_loop ds st = st"

definition hedging_step :: "Deal list \<Rightarrow> string \<Rightarrow> nat \<times> nat \<Rightarrow> nat \<times> nat" where
  "hedging_step sorted_df smb st =
     (let symbol_deals = filter (\<lambda>d. symbol d = smb) sorted_df
      in if length symbol_deals < 2 then st else hedging_loop symbol_deals st)"

definition detect_hedging_strategy :: "(Deal list \<Rightarrow> Deal list) \<Rightarrow> Deal list \<Rightarrow> HedgingResult" where
  "detect_hedging_strategy srt deals_df =
     (if deals_df = []
      then \<lparr>is_hedging = False, hedging_confidence = 0.0, hedging_ratio = None,
            hedging_instances = None, hedging_evidence = None\<rparr>
      else let sorted_df = srt deals_df;
               (instances, total_opportunities) =
                 fold (hedging_step sorted_df) (unique (map symbol sorted_df)) (0, 0);
               ratio = (if total_opportunities > 0
                        then real instances / real total_opportunities else 0)
        in \<lparr>is_hedging = (ratio > 0.3),
            hedging_confidence = min (ratio * 2) 0.85,
            hedging_ratio = Some ratio,
            hedging_instances = Some instances,
            hedging_evidence =
              (if ratio > 0.3
               then Some [[Lit ''Detected '', Count (int instances),
                           Lit '' potential hedging instances''],
                          [Lit ''Algorithm appears to use opposite positions for risk management'']]
               else None)\<rparr>)"

subsection \<open>Scaling in and out\<close>

record ScalingResult =
  is_scaling :: bool
  scaling_confidence :: real
  scaling_instances :: "nat option"
  scaling_evidence :: "fstring list option"

text \<open>The loop over the deal types of one symbol: the state is
  \<open>(consecutive_same_type, prev_type, scaling_instances)\<close>.\<close>

fun scaling_loop :: "int list \<Rightarrow> nat \<times> int option \<times> nat \<Rightarrow> nat \<times> int option \<times> nat" where
  "scaling_loop [] st = st"
| "scaling_loop (t # ts) (consecutive_same_type, prev_type, instances) =
     scaling_loop ts
       (if Some t = prev_type
        then (consecutive_same_type + 1, Some t,
              if consecutive_same_type + 1 \<ge> 2 then instances + 1 else instances)
        else (1, Some t, instances))"

definition scaling_step :: "Deal list \<Rightarrow> string \<Rightarrow> nat \<Rightarrow> nat" where
  "scaling_step sorted_df smb instances =
     (let symbol_deals = filter (\<lambda>d. symbol d = smb) sorted_df
      in if length symbol_deals < 3 then instances
         else snd (snd (scaling_loop (map deal_type symbol_deals) (1, None, instances))))"

definition detect_scaling_in_out :: "(Deal list \<Rightarrow> Deal list) \<Rightarrow> Deal list \<Rightarrow> ScalingResult" where
  "detect_scaling_in_out srt deals_df =
     (if deals_df = []
      then \<lparr>is_scaling = False, scaling_confidence = 0.0, scaling_instances = None,
            scaling_evidence = None\<rparr>
      else let sorted_df = srt deals_df;
               instances = fold (scaling_step sorted_df) (unique (map symbol sorted_df)) 0
        in \<lparr>is_scaling = (instances > 0),
            scaling_confidence = min (real instances * 0.2) 0.85,
            scaling_instances = Some instances,
            scaling_evidence =
              (if instances > 0
               then Some [[Lit ''Detected '', Count (int instances),
                           Lit '' instances of position scaling''],
                          [Lit ''Algorithm adds to winning/losing positions'']]
               else None)\<rparr>)"

text \<open>
  Two reference counts over the deal types of one symbol, in the order of a sorted
  table. The first follows the wording "each run of at least 2 consecutive
  same-direction deals counts once": it counts the positions where such a run starts.
  The second counts every deal that has the type of the deal before it.
\<close>

fun qualifying_runs :: "int option \<Rightarrow> int list \<Rightarrow> nat" where
  "qualifying_runs prev (a # b # ts) =
     (if a = b \<and> prev \<noteq> Some a then 1 else 0) + qualifying_runs (Some a) (b # ts)"
| "qualifying_runs prev ts = 0"

fun same_as_previous :: "int list \<Rightarrow> nat" where
  "same_as_previous (a # b # ts) = (if a = b then 1 else 0) + same_as_previous (b # ts)"
| "same_as_previous ts = 0"

definition symbol_types :: "Deal list \<Rightarrow> string \<Rightarrow> int list" where
  "symbol_types sorted_df smb = map deal_type (filter (\<lambda>d. symbol d = smb) sorted_df)"

definition runs_per_symbol :: "Deal list \<Rightarrow> nat" where
  "runs_per_symbol sorted_df =
     sum_list (map (\<lambda>smb. qualifying_runs None (symbol_types sorted_df smb))
                   (unique (map symbol sorted_df)))"

definition repeats_per_symbol :: "Deal list \<Rightarrow> nat" where
  "repeats_per_symbol sorted_df =
     sum_list (map (\<lambda>smb. if length (symbol_types sorted_df smb) < 3 then 0
                           else same_as_previous (symbol_types sorted_df smb))
                   (unique (map symbol sorted_df)))"

subsection \<open>Entry precision\<close>

record PrecisionResult =
  most_common_decimal_places :: nat
  precision_consistency :: real
  is_algorithmic_precision :: bool
  round_number_ratio :: real
  precision_evidence :: "fstring list option"

text \<open>
  \<open>f"{price:.10f}".rstrip('0')\<close> and the length of what follows the point: with \<open>n\<close> the
  price in units of \<open>10\<^sup>-\<^sup>1\<^sup>0\<close>, rounded, the number of decimals left of the ten after the
  trailing zeros are removed.
\<close>

fun strip_zeros :: "nat \<Rightarrow> nat \<Rightarrow> nat" where
  "strip_zeros 0 n = 0"
| "strip_zeros (Suc k) n = (if n mod 10 = 0 then strip_zeros k (n div 10) else Suc k)"

definition decimals :: "real \<Rightarrow> nat" where
  "decimals p = strip_zeros 10 (nat (round (\<bar>p\<bar> * 10 ^ 10)))"

text \<open>\<open>int((price * 100) % 10)\<close>: the float remainder has the sign of the divisor.\<close>

definition last_digit :: "real \<Rightarrow> int" where
  "last_digit p = \<lfloor>p * 100 - 10 * of_int \<lfloor>p * 100 / 10\<rfloor>\<rfloor>"

definition analyze_entry_precision :: "Deal list \<Rightarrow> PrecisionResult option" where
  "analyze_entry_precision deals_df =
     (if deals_df = [] then None
      else let prices = map price deals_df;
               decimal_places = map decimals prices in
        if decimal_places = [] then None
        else let top = hd (value_counts decimal_places);
                 precision_ratio = real (snd top) / real (length decimal_places);
                 round_prices = length (filter (\<lambda>p. last_digit p \<in> {0, 5}) prices);
                 round_ratio = real round_prices / real (length prices)
          in Some \<lparr>most_common_decimal_places = fst top,
                   precision_consistency = precision_ratio,
                   is_algorithmic_precision = (precision_ratio > 0.7),
                   round_number_ratio = round_ratio,
                   precision_evidence =
                     (if round_ratio > 0.5
                      then Some [[Lit ''High percentage of round-number entries suggests psychological levels or manual trading'']]
                      else if precision_ratio > 0.8
                      then Some [[Lit ''Consistent decimal precision suggests algorithmic entry'']]
                      else None)\<rparr>)"

section \<open>Example inputs\<close>

definition ex_hft :: TradePattern where
  "ex_hft = \<lparr>pattern_name = ''High-Frequency Trading (HFT)'', confidence = 0.85,
              description = ''Trading frequency analysis'', evidence = [], metrics = []\<rparr>"

definition ex_day :: TradePattern where
  "ex_day = \<lparr>pattern_name = ''Day Trading Strategy'', confidence = 0.75,
              description = ''Trading frequency analysis'', evidence = [], metrics = []\<rparr>"

definition ex_deal :: Deal where
  "ex_deal = \<lparr>time = 0, symbol = ''EURUSD'', deal_type = 0, price = 1.1, volume = 1,
               profit = 5\<rparr>"

definition ex_win :: Deal where
  "ex_win = \<lparr>time = 0, symbol = ''EURUSD'', deal_type = 0, price = 1.1, volume = 1,
              profit = 5\<rparr>"

definition ex_loss :: Deal where
  "ex_loss = \<lparr>time = 60, symbol = ''EURUSD'', deal_type = 1, price = 1.1, volume = 1,
               profit = -2\<rparr>"

definition ex_even :: Deal where
  "ex_even = \<lparr>time = 120, symbol = ''EURUSD'', deal_type = 1, price = 1.1, volume = 1,
               profit = 0\<rparr>"

text \<open>Four winning trades with the lot sizes 1, 2, 1, 2.\<close>

definition ex_mixed :: "Deal list" where
  "ex_mixed =
     [\<lparr>time = 0, symbol = ''EURUSD'', deal_type = 0, price = 1.1, volume = 1, profit = 5\<rparr>,
      \<lparr>time = 3600, symbol = ''EURUSD'', deal_type = 1, price = 1.1, volume = 2, profit = 5\<rparr>,
      \<lparr>time = 7200, symbol = ''EURUSD'', deal_type = 0, price = 1.1, volume = 1, profit = 5\<rparr>,
      \<lparr>time = 10800, symbol = ''EURUSD'', deal_type = 1, price = 1.1, volume = 2, profit = 5\<rparr>]"

text \<open>Three buys of one symbol, one minute apart.\<close>

definition ex_same3 :: "Deal list" where
  "ex_same3 =
     [\<lparr>time = 0, symbol = ''EURUSD'', deal_type = 0, price = 1.1, volume = 1, profit = 5\<rparr>,
      \<lparr>time = 60, symbol = ''EURUSD'', deal_type = 0, price = 1.1, volume = 1, profit = 5\<rparr>,
      \<lparr>time = 120, symbol = ''EURUSD'', deal_type = 0, price = 1.1, volume = 1, profit = 5\<rparr>]"

text \<open>Pending limit orders of one symbol, 0.0010 apart: five of them, and the first three.\<close>

definition ex_grid5 :: "Order list" where
  "ex_grid5 =
     [\<lparr>order_symbol = ''EURUSD'', order_type = 2, price_open = 1.1000, sl = 0, tp = 0\<rparr>,
      \<lparr>order_symbol = ''EURUSD'', order_type = 2, price_open = 1.1010, sl = 0, tp = 0\<rparr>,
      \<lparr>order_symbol = ''EURUSD'', order_type = 3, price_open = 1.1020, sl = 0, tp = 0\<rparr>,
      \<lparr>order_symbol = ''EURUSD'', order_type = 3, price_open = 1.1030, sl = 0, tp = 0\<rparr>,
      \<lparr>order_symbol = ''EURUSD'', order_type = 3, price_open = 1.1040, sl = 0, tp = 0\<rparr>]"

definition ex_grid3 :: "Order list" where
  "ex_grid3 =
     [\<lparr>order_symbol = ''EURUSD'', order_type = 2, price_open = 1.1000, sl = 0, tp = 0\<rparr>,
      \<lparr>order_symbol = ''EURUSD'', order_type = 2, price_open = 1.1010, sl = 0, tp = 0\<rparr>,
      \<lparr>order_symbol = ''EURUSD'', order_type = 3, price_open = 1.1020, sl = 0, tp = 0\<rparr>]"

text \<open>A buy, a sell and a buy of one symbol with the same timestamp, in two orders.\<close>

definition ex_tied :: "Deal list" where
  "ex_tied =
     [\<lparr>time = 0, symbol = ''EURUSD'', deal_type = 0, price = 1.1, volume = 1, profit = 5\<rparr>,
      \<lparr>time = 0, symbol = ''EURUSD'', deal_type = 1, price = 1.1, volume = 1, profit = 5\<rparr>,
      \<lparr>time = 0, symbol = ''EURUSD'', deal_type = 0, price = 1.1, volume = 2, profit = 5\<rparr>]"

definition ex_tied_swapped :: "Deal list" where
  "ex_tied_swapped =
     [\<lparr>time = 0, symbol = ''EURUSD'', deal_type = 0, price = 1.1, volume = 1, profit = 5\<rparr>,
      \<lparr>time = 0, symbol = ''EURUSD'', deal_type = 0, price = 1.1, volume = 2, profit = 5\<rparr>,
      \<lparr>time = 0, symbol = ''EURUSD'', deal_type = 1, price = 1.1, volume = 1, profit = 5\<rparr>]"

text \<open>Two deals on two consecutive days.\<close>

definition ex_two_days :: "Deal list" where
  "ex_two_days =
     [\<lparr>time = 0, symbol = ''EURUSD'', deal_type = 0, price = 1.1, volume = 1, profit = 5\<rparr>,
      \<lparr>time = 86400, symbol = ''EURUSD'', deal_type = 1, price = 1.1, volume = 1, profit = 5\<rparr>]"

section \<open>Auxiliary facts\<close>

subsection \<open>Substrings of the printed list of names\<close>

lemma sublist_split_char:
  assumes "c \<notin> set p" "p \<noteq> []"
  shows "sublist p (a @ c # b) \<longleftrightarrow> sublist p a \<or> sublist p b"
proof
  assume "sublist p (a @ c # b)"
  then consider "sublist p a" | "sublist p (c # b)"
    | xs1 xs2 where "p = xs1 @ xs2" "suffix xs1 a" "prefix xs2 (c # b)"
    by (auto simp: sublist_append)
  then show "sublist p a \<or> sublist p b"
  proof cases
    case 1 then show ?thesis by simp
  next
    case 2
    then have "prefix p (c # b) \<or> sublist p b" by (simp add: sublist_Cons_right)
    moreover have "\<not> prefix p (c # b)"
      using assms by (cases p) (auto simp: prefix_Cons)
    ultimately show ?thesis by simp
  next
    case 3
    have "xs2 = []"
    proof (cases xs2)
      case Nil then show ?thesis .
    next
      case (Cons x xs)
      with 3(3) have "x = c" by simp
      with Cons 3(1) assms(1) show ?thesis by simp
    qed
    with 3 show ?thesis by auto
  qed
next
  assume "sublist p a \<or> sublist p b"
  then show "sublist p (a @ c # b)"
    by (auto simp: sublist_append sublist_Cons_right)
qed

lemma grid_py_join:
  "sublist ''Grid'' (py_join ns) \<longleftrightarrow> (\<exists>n\<in>set ns. sublist ''Grid'' n)"
proof (induction ns rule: py_join.induct)
  case 1 show ?case by simp
next
  case (2 n)
  have "sublist ''Grid'' (CHR 0x27 # n @ [CHR 0x27]) \<longleftrightarrow> sublist ''Grid'' n"
    using sublist_split_char [of "CHR 0x27" "''Grid''" "[]" "n @ [CHR 0x27]"]
          sublist_split_char [of "CHR 0x27" "''Grid''" n "[]"]
    by simp
  then show ?case by simp
next
  case (3 n m ns)
  let ?rest = "py_join (m # ns)"
  have "sublist ''Grid'' (CHR 0x27 # n @ CHR 0x27 # CHR '','' # CHR '' '' # ?rest)
        \<longleftrightarrow> sublist ''Grid'' n \<or> sublist ''Grid'' ?rest"
    using sublist_split_char [of "CHR 0x27" "''Grid''" "[]"
            "n @ CHR 0x27 # CHR '','' # CHR '' '' # ?rest"]
          sublist_split_char [of "CHR 0x27" "''Grid''" n "CHR '','' # CHR '' '' # ?rest"]
          sublist_split_char [of "CHR '',''" "''Grid''" "[]" "CHR '' '' # ?rest"]
          sublist_split_char [of "CHR '' ''" "''Grid''" "[]" "?rest"]
    by simp
  with 3 show ?case by simp
qed

lemma grid_py_str:
  "sublist ''Grid'' (py_str ns) \<longleftrightarrow> (\<exists>n\<in>set ns. sublist ''Grid'' n)"
  unfolding py_str_def
  using sublist_split_char [of "CHR ''[''" "''Grid''" "[]" "py_join ns @ [CHR '']'']"]
        sublist_split_char [of "CHR '']''" "''Grid''" "py_join ns" "[]"]
  by (simp add: grid_py_join)

lemma unknown_risk_no_grid: "\<not> sublist ''Grid'' ''Unknown Risk Management''"
  by (simp add: sublist_code prefix_code)

lemma resolver_ignores_unknown_risk:
  assumes "pattern_name p = ''Unknown Risk Management''"
  shows "determine_algorithm_type (xs @ p # ys) stats = determine_algorithm_type (xs @ ys) stats"
  using assms unknown_risk_no_grid unfolding determine_algorithm_type_def Let_def grid_py_str
  by simp

subsection \<open>Gross profit and gross loss\<close>

lemma gross_loss_nonneg: "gross_loss ds \<ge> 0"
  by (simp add: gross_loss_def)

lemma gross_profit_nonneg: "gross_profit ds \<ge> 0"
  unfolding gross_profit_def by (rule sum_list_nonneg) auto

subsection \<open>The detectors on one deal\<close>

lemma one_deal_position_sizing:
  "\<exists>p. detect_position_sizing_pattern [ex_deal] = Some p \<and> confidence p = 0.95"
  by (simp add: detect_position_sizing_pattern_def ex_deal_def Let_def)

lemma one_deal_time_based:
  "\<exists>p. detect_time_based_patterns [ex_deal] = Some p \<and> confidence p = 0.85"
  by (simp add: detect_time_based_patterns_def ex_deal_def Let_def value_counts_def
      unique_def hour_def)

lemma one_deal_risk_management:
  "\<exists>p. detect_risk_management_pattern [ex_deal] [] = Some p \<and> confidence p = 0.5"
  by (simp add: detect_risk_management_pattern_def ex_deal_def Let_def)

lemma one_deal_frequency:
  "\<exists>p. detect_trading_frequency_pattern [ex_deal] = Some p \<and> confidence p = 0.7"
  by (simp add: detect_trading_frequency_pattern_def ex_deal_def Let_def trades_per_day_def
      mean_def pd_std_def date_def)

lemma one_deal_symbol:
  "\<exists>p. detect_symbol_pattern [ex_deal] = Some p \<and> confidence p = 0.95"
  by (simp add: detect_symbol_pattern_def ex_deal_def Let_def value_counts_def unique_def)

lemma ex_mixed_cv: "np_std (map volume ex_mixed) / mean (map volume ex_mixed) = 1 / 3"
  by (simp add: np_std_def sq_dev_def mean_def ex_mixed_def power2_eq_square real_sqrt_divide)

subsection \<open>The scaling loop\<close>

lemma scaling_loop_count:
  "c \<ge> 1 \<Longrightarrow> snd (snd (scaling_loop ts (c, prev, n))) =
     n + (case prev of None \<Rightarrow> same_as_previous ts | Some x \<Rightarrow> same_as_previous (x # ts))"
proof (induction ts arbitrary: c prev n)
  case Nil
  then show ?case by (simp split: option.splits)
next
  case (Cons t ts)
  show ?case
  proof (cases "Some t = prev")
    case True
    then have "snd (snd (scaling_loop (t # ts) (c, prev, n)))
               = snd (snd (scaling_loop ts (c + 1, Some t, n + 1)))"
      using Cons.prems by simp
    also have "\<dots> = n + 1 + same_as_previous (t # ts)"
      using Cons.IH [of "c + 1" "Some t" "n + 1"] by simp
    finally show ?thesis using True by auto
  next
    case False
    then have "snd (snd (scaling_loop (t # ts) (c, prev, n)))
               = snd (snd (scaling_loop ts (1, Some t, n)))"
      by simp
    also have "\<dots> = n + same_as_previous (t # ts)"
      using Cons.IH [of 1 "Some t" n] by simp
    finally show ?thesis using False by (auto split: option.splits)
  qed
qed

lemma scaling_step_count:
  "scaling_step sorted_df smb n =
     n + (if length (symbol_types sorted_df smb) < 3 then 0
          else same_as_previous (symbol_types sorted_df smb))"
  using scaling_loop_count [of 1 "symbol_types sorted_df smb" None n]
  by (simp add: scaling_step_def symbol_types_def Let_def)

lemma scaling_fold_count:
  "fold (scaling_step sorted_df) syms n =
     n + sum_list (map (\<lambda>smb. if length (symbol_types sorted_df smb) < 3 then 0
                               else same_as_previous (symbol_types sorted_df smb)) syms)"
  by (induction syms arbitrary: n) (simp_all add: scaling_step_count)

text \<open>
  The stable sort by time is one of the sorts \<open>sort_values('time')\<close> may be, and the
  only one on a table whose timestamps are all different.
\<close>

lemma sorts_by_time_sort_key: "sorts_by_time (sort_key time)"
  by (simp add: sorts_by_time_def)

lemma filter_distinct_key:
  "distinct (map f xs) \<Longrightarrow> k \<in> set xs \<Longrightarrow> filter (\<lambda>x. f k = f x) xs = [k]"
proof (induction xs)
  case Nil
  then show ?case by simp
next
  case (Cons a xs)
  show ?case
  proof (cases "k = a")
    case True
    have "filter (\<lambda>x. f a = f x) xs = []"
      using Cons.prems(1) by (auto simp: filter_empty_conv)
    with True show ?thesis by simp
  next
    case False
    with Cons.prems have k: "k \<in> set xs" by simp
    from Cons.prems(1) have "f a \<notin> f ` set xs" by simp
    with k have "f k \<noteq> f a" by (metis imageI)
    with k Cons show ?thesis by simp
  qed
qed

lemma distinct_times_one_order:
  assumes "sorts_by_time srt" "distinct (map time df)"
  shows "srt df = sort_key time df"
proof -
  from assms(1) have m: "mset (srt df) = mset df" and s: "sorted (map time (srt df))"
    by (simp_all add: sorts_by_time_def)
  from m have "mset (map time (srt df)) = mset (map time df)" by simp
  with assms(2) have d: "distinct (map time (srt df))"
    by (metis mset_eq_imp_distinct_iff)
  have "sort_key time df = srt df"
  proof (rule properties_for_sort_key [OF m _ s])
    fix k assume k: "k \<in> set (srt df)"
    with m have "k \<in> set df" by (metis mset_eq_setD)
    with assms(2) have "filter (\<lambda>x. time k = time x) df = [k]" by (rule filter_distinct_key)
    moreover from d k have "filter (\<lambda>x. time k = time x) (srt df) = [k]"
      by (rule filter_distinct_key)
    ultimately show "filter (\<lambda>x. time k = time x) (srt df) = filter (\<lambda>x. time k = time x) df"
      by simp
  qed
  then show ?thesis by simp
qed

text \<open>
  With tied timestamps the order matters: the two orders of the same three rows are
  both by increasing time, and the count is 0 on one and 1 on the other.
\<close>

lemma tied_rows_two_counts:
  "mset ex_tied_swapped = mset ex_tied
   \<and> sorted (map time ex_tied) \<and> sorted (map time ex_tied_swapped)
   \<and> repeats_per_symbol ex_tied = 0 \<and> repeats_per_symbol ex_tied_swapped = 1"
  by (simp add: ex_tied_def ex_tied_swapped_def repeats_per_symbol_def symbol_types_def
      unique_def)

lemma ex_same3_sorted: "sort_key time ex_same3 = ex_same3"
  by (simp add: ex_same3_def)

lemma ex_same3_types: "symbol_types ex_same3 ''EURUSD'' = [0, 0, 0]"
  by (simp add: symbol_types_def ex_same3_def)

lemma ex_same3_symbols: "unique (map symbol ex_same3) = [''EURUSD'']"
  by (simp add: ex_same3_def unique_def)

lemma ex_same3_repeats: "repeats_per_symbol ex_same3 = 2"
  by (simp add: repeats_per_symbol_def ex_same3_symbols ex_same3_types)

lemma ex_same3_runs: "runs_per_symbol ex_same3 = 1"
  by (simp add: runs_per_symbol_def ex_same3_symbols ex_same3_types)

subsection \<open>The grid loop\<close>

lemma length_np_diff: "length (np_diff xs) = length xs - 1"
  by (induction xs rule: np_diff.induct) simp_all

lemma set_unique: "set (unique xs) = set xs"
  by (simp add: unique_def)

lemma grid_step_regular:
  assumes "grid_regular orders_df smb"
  shows "is_grid (grid_step orders_df smb r)
       \<and> grid_confidence (grid_step orders_df smb r) = 0.8
       \<and> grid_spacing (grid_step orders_df smb r) = Some (mean (grid_diffs orders_df smb))"
proof -
  from assms have "length (grid_diffs orders_df smb) > 0"
    by (simp add: grid_regular_def grid_diffs_def length_np_diff)
  with assms show ?thesis
    by (simp add: grid_step_def grid_regular_def grid_diffs_def pending_prices_def Let_def)
qed

lemma grid_step_irregular:
  assumes "\<not> grid_regular orders_df smb"
  shows "grid_step orders_df smb r = r"
  using assms
  by (auto simp: grid_step_def grid_regular_def grid_diffs_def pending_prices_def Let_def)

lemma grid_fold_none:
  "\<forall>s\<in>set syms. \<not> grid_regular orders_df s \<Longrightarrow> fold (grid_step orders_df) syms r = r"
  by (induction syms arbitrary: r) (simp_all add: grid_step_irregular)

lemma grid_fold_some:
  assumes "\<exists>s\<in>set syms. grid_regular orders_df s"
  shows "is_grid (fold (grid_step orders_df) syms r)
       \<and> grid_confidence (fold (grid_step orders_df) syms r) = 0.8
       \<and> (\<exists>s\<in>set syms. grid_regular orders_df s
             \<and> grid_spacing (fold (grid_step orders_df) syms r)
                 = Some (mean (grid_diffs orders_df s)))"
  using assms
proof (induction syms arbitrary: r rule: rev_induct)
  case Nil
  then show ?case by simp
next
  case (snoc x xs)
  show ?case
  proof (cases "grid_regular orders_df x")
    case True
    then show ?thesis using grid_step_regular [OF True] by auto
  next
    case False
    with snoc.prems have "\<exists>s\<in>set xs. grid_regular orders_df s" by auto
    from snoc.IH [OF this, of r] False show ?thesis
      by (auto simp: grid_step_irregular)
  qed
qed

lemma ex_grid5_prices:
  "pending_prices ex_grid5 ''EURUSD'' = [1.1000, 1.1010, 1.1020, 1.1030, 1.1040]"
  by (simp add: pending_prices_def ex_grid5_def)

lemma ex_grid5_diffs: "grid_diffs ex_grid5 ''EURUSD'' = [0.001, 0.001, 0.001, 0.001]"
  by (simp add: grid_diffs_def ex_grid5_prices)

lemma ex_grid5_regular: "grid_regular ex_grid5 ''EURUSD''"
  by (simp add: grid_regular_def ex_grid5_diffs ex_grid5_prices np_std_def sq_dev_def mean_def)
     (simp add: ex_grid5_def)

lemma ex_grid3_prices:
  "pending_prices ex_grid3 ''EURUSD'' = [1.1000, 1.1010, 1.1020]"
  by (simp add: pending_prices_def ex_grid3_def)

lemma ex_grid3_diffs: "grid_diffs ex_grid3 ''EURUSD'' = [0.001, 0.001]"
  by (simp add: grid_diffs_def ex_grid3_prices)

subsection \<open>Bounds of the confidences\<close>

lemma position_sizing_fires:
  "d \<noteq> [] \<Longrightarrow> \<exists>p. detect_position_sizing_pattern d = Some p
      \<and> 0 \<le> confidence p \<and> confidence p \<le> 1"
  by (simp add: detect_position_sizing_pattern_def Let_def)

lemma time_based_fires:
  "d \<noteq> [] \<Longrightarrow> \<exists>p. detect_time_based_patterns d = Some p
      \<and> 0 \<le> confidence p \<and> confidence p \<le> 1"
  by (simp add: detect_time_based_patterns_def Let_def)

lemma risk_management_fires:
  "d \<noteq> [] \<Longrightarrow> \<exists>p. detect_risk_management_pattern d orders = Some p
      \<and> 0 \<le> confidence p \<and> confidence p \<le> 1"
  by (simp add: detect_risk_management_pattern_def Let_def)

lemma frequency_fires:
  "d \<noteq> [] \<Longrightarrow> \<exists>p. detect_trading_frequency_pattern d = Some p
      \<and> 0 \<le> confidence p \<and> confidence p \<le> 0.9"
  by (simp add: detect_trading_frequency_pattern_def Let_def)

lemma symbol_fires:
  "d \<noteq> [] \<Longrightarrow> \<exists>p. detect_symbol_pattern d = Some p
      \<and> 0 \<le> confidence p \<and> confidence p \<le> 1"
  by (simp add: detect_symbol_pattern_def Let_def)

lemma position_sizing_confidence:
  assumes "detect_position_sizing_pattern d = Some p"
  shows "0 \<le> confidence p \<and> confidence p \<le> 1"
proof (cases "d = []")
  case True
  with assms show ?thesis by (simp add: detect_position_sizing_pattern_def)
next
  case False
  from position_sizing_fires [OF False] assms show ?thesis by auto
qed

lemma time_based_confidence:
  assumes "detect_time_based_patterns d = Some p"
  shows "0 \<le> confidence p \<and> confidence p \<le> 1"
proof (cases "d = []")
  case True
  with assms show ?thesis by (simp add: detect_time_based_patterns_def)
next
  case False
  from time_based_fires [OF False] assms show ?thesis by auto
qed

lemma risk_management_confidence:
  assumes "detect_risk_management_pattern d orders = Some p"
  shows "0 \<le> confidence p \<and> confidence p \<le> 1"
proof (cases "d = []")
  case True
  with assms show ?thesis by (simp add: detect_risk_management_pattern_def)
next
  case False
  from risk_management_fires [OF False, of orders] assms show ?thesis by auto
qed

lemma frequency_confidence:
  assumes "detect_trading_frequency_pattern d = Some p"
  shows "0 \<le> confidence p \<and> confidence p \<le> 0.9"
proof (cases "d = []")
  case True
  with assms show ?thesis by (simp add: detect_trading_frequency_pattern_def)
next
  case False
  from frequency_fires [OF False] assms show ?thesis by auto
qed

lemma symbol_confidence:
  assumes "detect_symbol_pattern d = Some p"
  shows "0 \<le> confidence p \<and> confidence p \<le> 1"
proof (cases "d = []")
  case True
  with assms show ?thesis by (simp add: detect_symbol_pattern_def)
next
  case False
  from symbol_fires [OF False] assms show ?thesis by auto
qed

lemma grid_step_confidence:
  "0 \<le> grid_confidence r \<and> grid_confidence r \<le> 1 \<Longrightarrow>
   0 \<le> grid_confidence (grid_step orders smb r) \<and> grid_confidence (grid_step orders smb r) \<le> 1"
  by (simp add: grid_step_def Let_def)

lemma grid_fold_confidence:
  "0 \<le> grid_confidence r \<and> grid_confidence r \<le> 1 \<Longrightarrow>
   0 \<le> grid_confidence (fold (grid_step orders) syms r)
   \<and> grid_confidence (fold (grid_step orders) syms r) \<le> 1"
proof (induction syms arbitrary: r)
  case Nil
  then show ?case by simp
next
  case (Cons s syms)
  from Cons.IH [OF grid_step_confidence [OF Cons.prems]] show ?case by simp
qed

lemma grid_confidence_bounds:
  "0 \<le> grid_confidence (detect_grid_trading d orders)
   \<and> grid_confidence (detect_grid_trading d orders) \<le> 1"
  using grid_fold_confidence [of "\<lparr>is_grid = False, grid_confidence = 0.0,
      grid_evidence = Some [], grid_spacing = None\<rparr>" orders "unique (map symbol d)"]
  by (simp add: detect_grid_trading_def)

lemma news_confidence_bounds:
  "0 \<le> news_confidence (detect_news_trading d) \<and> news_confidence (detect_news_trading d) \<le> 1"
  by (simp add: detect_news_trading_def Let_def min_le_iff_disj)

lemma correlation_confidence_bounds:
  "0 \<le> correlation_confidence (detect_correlation_trading d)
   \<and> correlation_confidence (detect_correlation_trading d) \<le> 1"
  by (simp add: detect_correlation_trading_def Let_def min_le_iff_disj split: prod.splits)

lemma hedging_confidence_bounds:
  "0 \<le> hedging_confidence (detect_hedging_strategy srt d)
   \<and> hedging_confidence (detect_hedging_strategy srt d) \<le> 1"
  by (simp add: detect_hedging_strategy_def Let_def min_le_iff_disj split: prod.splits)

lemma scaling_confidence_bounds:
  "0 \<le> scaling_confidence (detect_scaling_in_out srt d)
   \<and> scaling_confidence (detect_scaling_in_out srt d) \<le> 1"
  by (simp add: detect_scaling_in_out_def Let_def min_le_iff_disj)

lemma mean_in_unit:
  assumes "\<forall>x\<in>set xs. 0 \<le> x \<and> x \<le> (1::real)" "xs \<noteq> []"
  shows "0 \<le> sum_list xs / real (length xs) \<and> sum_list xs / real (length xs) \<le> 1"
proof -
  have "0 \<le> sum_list xs" using assms(1) by (simp add: sum_list_nonneg)
  moreover have "sum_list xs \<le> real (length xs)"
    using assms(1) by (induction xs) auto
  moreover have "0 < real (length xs)" using assms(2) by simp
  ultimately show ?thesis by (simp add: divide_le_eq)
qed

lemma detect_all_confidence:
  assumes "p \<in> set (detect_all d orders)"
  shows "0 \<le> confidence p \<and> confidence p \<le> 1"
proof -
  from assms consider "detect_position_sizing_pattern d = Some p"
    | "detect_time_based_patterns d = Some p"
    | "detect_risk_management_pattern d orders = Some p"
    | "detect_trading_frequency_pattern d = Some p"
    | "detect_symbol_pattern d = Some p"
    by (auto simp: detect_all_def split: option.splits)
  then show ?thesis
  proof cases
    case 1 then show ?thesis by (rule position_sizing_confidence)
  next
    case 2 then show ?thesis by (rule time_based_confidence)
  next
    case 3 then show ?thesis by (rule risk_management_confidence)
  next
    case 4 then show ?thesis using frequency_confidence [of d p] by simp
  next
    case 5 then show ?thesis by (rule symbol_confidence)
  qed
qed

lemma signature_confidence_bounds:
  "0 \<le> sig_confidence (identify_algorithm_type now d orders)
   \<and> sig_confidence (identify_algorithm_type now d orders) \<le> 1"
proof (cases "detect_all d orders = []")
  case True
  then show ?thesis by (simp add: identify_algorithm_type_def Let_def)
next
  case False
  have "\<forall>x\<in>set (map confidence (detect_all d orders)). 0 \<le> x \<and> x \<le> 1"
    using detect_all_confidence by auto
  from mean_in_unit [OF this] False show ?thesis
    by (simp add: identify_algorithm_type_def Let_def)
qed

lemma ex_two_days_per_day: "trades_per_day ex_two_days = [1, 1]"
  by (simp add: trades_per_day_def ex_two_days_def date_def)

lemma ex_two_days_frequency:
  "\<exists>p. detect_trading_frequency_pattern ex_two_days = Some p \<and> confidence p = 0.75"
  by (simp add: detect_trading_frequency_pattern_def Let_def ex_two_days_per_day mean_def
      pd_std_def sq_dev_def)
    (simp add: ex_two_days_def)

section \<open>The resolver's precedence\<close>

text \<open>
  C2. The resolver looks at the names of the patterns in a fixed order of rules and the
  first rule that matches decides: whenever both "High-Frequency Trading (HFT)" and
  "Day Trading Strategy" are among the names, the result is
  "High-Frequency Trading Bot", whatever the other patterns and the statistics are.
\<close>

theorem resolver_hft_before_day_trading:
  assumes "''High-Frequency Trading (HFT)'' \<in> set (map pattern_name ps)"
    and "''Day Trading Strategy'' \<in> set (map pattern_name ps)"
  shows "determine_algorithm_type ps stats = ''High-Frequency Trading Bot''"
  using assms(1) unfolding determine_algorithm_type_def Let_def by simp

theorem resolver_hft_before_day_trading_witness:
  "''High-Frequency Trading (HFT)'' \<in> set (map pattern_name [ex_day, ex_hft])
   \<and> ''Day Trading Strategy'' \<in> set (map pattern_name [ex_day, ex_hft])
   \<and> determine_algorithm_type [ex_day, ex_hft] None = ''High-Frequency Trading Bot''"
proof -
  have a: "''High-Frequency Trading (HFT)'' \<in> set (map pattern_name [ex_day, ex_hft])"
    by (simp add: ex_hft_def)
  have b: "''Day Trading Strategy'' \<in> set (map pattern_name [ex_day, ex_hft])"
    by (simp add: ex_day_def)
  show ?thesis using a b resolver_hft_before_day_trading [OF a b, of None] by simp
qed

section \<open>Position sizing on four or more trades\<close>

text \<open>
  C1. The claim is that a table of at least 4 trades with lot sizes that are not all
  equal and too few martingale steps is classified by the coefficient of variation of
  the lot sizes. In the code the branch that computes the coefficient of variation is
  the \<open>else\<close> of the test \<open>len(volumes) > 3\<close>, so it is never reached by such a table. At
  the four winning trades with lot sizes 1, 2, 1, 2 no step is a martingale step and the
  coefficient of variation is 1/3, which is not below 0.2; the detector returns the
  pattern "Unknown" with confidence 0 and no evidence, not "Dynamic/Variable Sizing"
  with confidence 0.6.
\<close>

theorem position_sizing_falls_through:
  "length ex_mixed \<ge> 4
   \<and> card (set (map volume ex_mixed)) \<noteq> 1
   \<and> snd (martingale_loop (hd (map volume ex_mixed)) (map profit ex_mixed)
            (map volume ex_mixed) (True, 0)) = 0
   \<and> \<not> np_std (map volume ex_mixed) / mean (map volume ex_mixed) < 0.2
   \<and> detect_position_sizing_pattern ex_mixed =
       Some \<lparr>pattern_name = ''Unknown'', confidence = 0,
             description = ''Position sizing strategy analysis'', evidence = [],
             metrics = []\<rparr>"
  unfolding ex_mixed_cv
  by (simp add: detect_position_sizing_pattern_def ex_mixed_def Let_def card_insert_if)

section \<open>The confidence of the signature\<close>

text \<open>
  C3. The patterns of the signature are the patterns of the five detectors that returned
  one, in call order, and the confidence of the signature is the arithmetic mean of
  their confidences, or 0 when there is none.
\<close>

theorem signature_confidence_is_mean:
  "patterns (identify_algorithm_type now deals_df orders_df) =
     List.map_filter (\<lambda>p. p)
       [detect_position_sizing_pattern deals_df,
        detect_time_based_patterns deals_df,
        detect_risk_management_pattern deals_df orders_df,
        detect_trading_frequency_pattern deals_df,
        detect_symbol_pattern deals_df]
   \<and> sig_confidence (identify_algorithm_type now deals_df orders_df) =
       (if patterns (identify_algorithm_type now deals_df orders_df) = [] then 0
        else sum_list (map confidence (patterns (identify_algorithm_type now deals_df orders_df)))
             / real (length (patterns (identify_algorithm_type now deals_df orders_df))))"
  by (simp add: identify_algorithm_type_def detect_all_def Let_def)

theorem signature_confidence_is_mean_witness:
  "sig_confidence (identify_algorithm_type ''2026-01-01T00:00:00'' [ex_deal] []) = 0.79
   \<and> sig_confidence (identify_algorithm_type ''2026-01-01T00:00:00'' [] []) = 0"
proof -
  obtain p1 p2 p3 p4 p5 where
    "detect_position_sizing_pattern [ex_deal] = Some p1" "confidence p1 = 0.95"
    "detect_time_based_patterns [ex_deal] = Some p2" "confidence p2 = 0.85"
    "detect_risk_management_pattern [ex_deal] [] = Some p3" "confidence p3 = 0.5"
    "detect_trading_frequency_pattern [ex_deal] = Some p4" "confidence p4 = 0.7"
    "detect_symbol_pattern [ex_deal] = Some p5" "confidence p5 = 0.95"
    using one_deal_position_sizing one_deal_time_based one_deal_risk_management
      one_deal_frequency one_deal_symbol by blast
  then have "sig_confidence (identify_algorithm_type ''2026-01-01T00:00:00'' [ex_deal] []) = 0.79"
    using signature_confidence_is_mean [of "''2026-01-01T00:00:00''" "[ex_deal]" "[]"]
    by simp
  moreover have "sig_confidence (identify_algorithm_type ''2026-01-01T00:00:00'' [] []) = 0"
    using signature_confidence_is_mean [of "''2026-01-01T00:00:00''" "[]" "[]"]
    by (simp add: detect_position_sizing_pattern_def detect_time_based_patterns_def
        detect_risk_management_pattern_def detect_trading_frequency_pattern_def
        detect_symbol_pattern_def)
  ultimately show ?thesis by simp
qed

section \<open>Empty deals table\<close>

text \<open>
  C5. On an empty deals table every detector returns absence: the five core detectors
  return \<open>None\<close>, whatever the orders table and the sort are; the grid, news,
  correlation, hedging and scaling detectors return their not-detected result with
  confidence 0 and no other key; the entry-precision analysis returns the empty
  dictionary.
\<close>

theorem empty_deals_absence:
  "detect_position_sizing_pattern [] = None
   \<and> detect_time_based_patterns [] = None
   \<and> detect_risk_management_pattern [] orders_df = None
   \<and> detect_trading_frequency_pattern [] = None
   \<and> detect_symbol_pattern [] = None
   \<and> detect_grid_trading [] orders_df =
       \<lparr>is_grid = False, grid_confidence = 0, grid_evidence = None, grid_spacing = None\<rparr>
   \<and> detect_news_trading [] =
       \<lparr>is_news_trading = False, news_confidence = 0, clusters_detected = None,
        cluster_ratio = None, news_evidence = None\<rparr>
   \<and> detect_correlation_trading [] =
       \<lparr>is_correlation_trading = False, correlation_confidence = 0,
        simultaneous_ratio = None, simultaneous_count = None, correlation_evidence = None\<rparr>
   \<and> detect_hedging_strategy srt [] =
       \<lparr>is_hedging = False, hedging_confidence = 0, hedging_ratio = None,
        hedging_instances = None, hedging_evidence = None\<rparr>
   \<and> detect_scaling_in_out srt [] =
       \<lparr>is_scaling = False, scaling_confidence = 0, scaling_instances = None,
        scaling_evidence = None\<rparr>
   \<and> analyze_entry_precision [] = None"
  by (simp add: detect_position_sizing_pattern_def detect_time_based_patterns_def
      detect_risk_management_pattern_def detect_trading_frequency_pattern_def
      detect_symbol_pattern_def detect_grid_trading_def detect_news_trading_def
      detect_correlation_trading_def detect_hedging_strategy_def detect_scaling_in_out_def
      analyze_entry_precision_def)

section \<open>Profit factor\<close>

text \<open>
  C6. When the table has at least one buy or sell deal the statistics exist, and their
  profit factor is gross profit divided by gross loss when the gross loss is positive,
  infinite when the gross loss is 0 and the gross profit is positive, and 0 when both
  are 0. Gross loss and gross profit are never negative, so the three cases are all
  the cases.
\<close>

theorem profit_factor_cases:
  assumes "trade_deals = filter (\<lambda>d. deal_type d \<in> {0, 1}) deals_df"
    and "trade_deals \<noteq> []"
  shows "\<exists>st. calculate_trade_statistics deals_df = Some st
      \<and> (gross_loss trade_deals > 0 \<longrightarrow>
           profit_factor st = Finite (gross_profit trade_deals / gross_loss trade_deals))
      \<and> (gross_loss trade_deals = 0 \<and> gross_profit trade_deals > 0 \<longrightarrow> profit_factor st = Inf)
      \<and> (gross_loss trade_deals = 0 \<and> gross_profit trade_deals = 0 \<longrightarrow>
           profit_factor st = Finite 0)
      \<and> gross_loss trade_deals \<ge> 0 \<and> gross_profit trade_deals \<ge> 0"
proof -
  from assms have ne: "deals_df \<noteq> []" by auto
  with assms obtain st where st: "calculate_trade_statistics deals_df = Some st"
    by (simp add: calculate_trade_statistics_def Let_def)
  with assms ne have pf: "profit_factor st =
      (if gross_loss trade_deals > 0
       then Finite (gross_profit trade_deals / gross_loss trade_deals)
       else if gross_profit trade_deals > 0 then Inf else Finite 0)"
    by (auto simp: calculate_trade_statistics_def Let_def)
  show ?thesis
    using st pf gross_loss_nonneg [of trade_deals] gross_profit_nonneg [of trade_deals]
    by auto
qed

theorem profit_factor_cases_witness:
  "(\<exists>st. calculate_trade_statistics [ex_win, ex_loss] = Some st
         \<and> profit_factor st = Finite (5 / 2))
   \<and> (\<exists>st. calculate_trade_statistics [ex_win] = Some st \<and> profit_factor st = Inf)
   \<and> (\<exists>st. calculate_trade_statistics [ex_even] = Some st \<and> profit_factor st = Finite 0)"
proof -
  have a: "[ex_win, ex_loss] = filter (\<lambda>d. deal_type d \<in> {0, 1}) [ex_win, ex_loss]"
    by (simp add: ex_win_def ex_loss_def)
  have b: "[ex_win] = filter (\<lambda>d. deal_type d \<in> {0, 1}) [ex_win]"
    by (simp add: ex_win_def)
  have c: "[ex_even] = filter (\<lambda>d. deal_type d \<in> {0, 1}) [ex_even]"
    by (simp add: ex_even_def)
  have ga: "gross_loss [ex_win, ex_loss] = 2" "gross_profit [ex_win, ex_loss] = 5"
    by (simp_all add: gross_loss_def gross_profit_def ex_win_def ex_loss_def)
  have gb: "gross_loss [ex_win] = 0" "gross_profit [ex_win] = 5"
    by (simp_all add: gross_loss_def gross_profit_def ex_win_def)
  have gc: "gross_loss [ex_even] = 0" "gross_profit [ex_even] = 0"
    by (simp_all add: gross_loss_def gross_profit_def ex_even_def)
  show ?thesis
    using profit_factor_cases [OF a] profit_factor_cases [OF b] profit_factor_cases [OF c]
      ga gb gc
    by auto
qed

section \<open>Risk management without orders\<close>

text \<open>
  C10. With a deals table that is not empty and an empty orders table the
  risk-management detector returns a pattern, named "Unknown Risk Management", with
  confidence 0.5 and without the two usage metrics of the orders. No rule of the
  resolver matches that name: taking the pattern out of any list of patterns leaves
  the resolved algorithm as it is.
\<close>

theorem risk_management_without_orders:
  assumes "deals_df \<noteq> []"
  shows "\<exists>p. detect_risk_management_pattern deals_df [] = Some p
             \<and> pattern_name p = ''Unknown Risk Management''
             \<and> confidence p = 0.5
             \<and> map_of (metrics p) ''stop_loss_usage_pct'' = None
             \<and> map_of (metrics p) ''take_profit_usage_pct'' = None
             \<and> (\<forall>xs ys stats. determine_algorithm_type (xs @ p # ys) stats
                               = determine_algorithm_type (xs @ ys) stats)"
proof -
  obtain p where p: "detect_risk_management_pattern deals_df [] = Some p"
    using assms by (simp add: detect_risk_management_pattern_def Let_def)
  from p assms have n: "pattern_name p = ''Unknown Risk Management''"
    by (auto simp: detect_risk_management_pattern_def Let_def)
  from p assms have c: "confidence p = 0.5"
    by (auto simp: detect_risk_management_pattern_def Let_def)
  from p assms have m: "map_of (metrics p) ''stop_loss_usage_pct'' = None"
      "map_of (metrics p) ''take_profit_usage_pct'' = None"
    by (auto simp: detect_risk_management_pattern_def Let_def)
  from n have "\<forall>xs ys stats. determine_algorithm_type (xs @ p # ys) stats
                               = determine_algorithm_type (xs @ ys) stats"
    by (simp add: resolver_ignores_unknown_risk)
  with p n c m show ?thesis by blast
qed

theorem risk_management_without_orders_witness:
  "[ex_deal] \<noteq> [] \<and> (\<exists>p. detect_risk_management_pattern [ex_deal] [] = Some p
             \<and> pattern_name p = ''Unknown Risk Management''
             \<and> confidence p = 0.5)"
  using risk_management_without_orders [of "[ex_deal]"] by auto

section \<open>Scaling instances\<close>

text \<open>
  C8, as stated: every run of at least 2 consecutive same-direction deals of a symbol
  adds one to the counter. It fails at three consecutive buys of one symbol, which are
  one run: the detector counts 2. The three timestamps are different, so the table has
  one order by time and the sort is the stable sort by time.
\<close>

theorem scaling_once_per_run_counterexample:
  "distinct (map time ex_same3)
   \<and> runs_per_symbol (sort_key time ex_same3) = 1
   \<and> scaling_instances (detect_scaling_in_out (sort_key time) ex_same3) = Some 2
   \<and> scaling_instances (detect_scaling_in_out (sort_key time) ex_same3)
       \<noteq> Some (runs_per_symbol (sort_key time ex_same3))"
  by (simp add: ex_same3_sorted ex_same3_runs detect_scaling_in_out_def Let_def
      ex_same3_symbols scaling_step_def)
    (simp add: ex_same3_def)

text \<open>
  C8, amended: on a deals table that is not empty, with the rows in the order that the
  sort by time leaves them in (a rearrangement of the table by increasing time; rows
  with the same timestamp in whatever order the sort puts them, and the one order by
  time when all timestamps are different), the counter is the number of deals that
  have the type of the deal before them among the deals of the same symbol, summed
  over the symbols with at least 3 deals (a run of \<open>k\<close> deals adds \<open>k - 1\<close>; a symbol
  with fewer than 3 deals adds nothing). The result is flagged as scaling exactly when
  the counter is positive, and its confidence is the minimum of 0.2 times the counter
  and 0.85.
\<close>

theorem scaling_counts_repeats:
  assumes "deals_df \<noteq> []" and "sorts_by_time srt"
  shows "scaling_instances (detect_scaling_in_out srt deals_df)
           = Some (repeats_per_symbol (srt deals_df))
       \<and> is_scaling (detect_scaling_in_out srt deals_df)
           = (repeats_per_symbol (srt deals_df) > 0)
       \<and> scaling_confidence (detect_scaling_in_out srt deals_df)
           = min (real (repeats_per_symbol (srt deals_df)) * 0.2) 0.85
       \<and> mset (srt deals_df) = mset deals_df
       \<and> sorted (map time (srt deals_df))
       \<and> (distinct (map time deals_df) \<longrightarrow> srt deals_df = sort_key time deals_df)"
proof -
  have "scaling_instances (detect_scaling_in_out srt deals_df)
           = Some (repeats_per_symbol (srt deals_df))
       \<and> is_scaling (detect_scaling_in_out srt deals_df)
           = (repeats_per_symbol (srt deals_df) > 0)
       \<and> scaling_confidence (detect_scaling_in_out srt deals_df)
           = min (real (repeats_per_symbol (srt deals_df)) * 0.2) 0.85"
    using assms(1)
    by (simp add: detect_scaling_in_out_def Let_def scaling_fold_count repeats_per_symbol_def)
  moreover from assms(2) have "mset (srt deals_df) = mset deals_df"
      "sorted (map time (srt deals_df))"
    by (simp_all add: sorts_by_time_def)
  moreover have "distinct (map time deals_df) \<longrightarrow> srt deals_df = sort_key time deals_df"
    using distinct_times_one_order [OF assms(2)] by simp
  ultimately show ?thesis by simp
qed

theorem scaling_counts_repeats_witness:
  "ex_same3 \<noteq> [] \<and> sorts_by_time (sort_key time)
   \<and> scaling_instances (detect_scaling_in_out (sort_key time) ex_same3) = Some 2
   \<and> is_scaling (detect_scaling_in_out (sort_key time) ex_same3)
   \<and> scaling_confidence (detect_scaling_in_out (sort_key time) ex_same3) = 0.4"
proof -
  have ne: "ex_same3 \<noteq> []" by (simp add: ex_same3_def)
  show ?thesis
    using ne sorts_by_time_sort_key scaling_counts_repeats [OF ne sorts_by_time_sort_key]
    by (simp add: ex_same3_sorted ex_same3_repeats)
qed

section \<open>Grid detection\<close>

text \<open>
  C7, as stated: at least 3 pending limit orders of a symbol with regular price
  differences trigger grid detection. It fails at three pending limit orders of a
  traded symbol, 0.0010 apart, that are the only orders of the symbol: the detector
  skips a symbol with fewer than 5 orders.
\<close>

theorem grid_three_pending_counterexample:
  "length (pending_prices ex_grid3 ''EURUSD'') \<ge> 3
   \<and> np_std (grid_diffs ex_grid3 ''EURUSD'') < 0.3 * mean (grid_diffs ex_grid3 ''EURUSD'')
   \<and> ''EURUSD'' \<in> set (map symbol [ex_deal])
   \<and> \<not> is_grid (detect_grid_trading [ex_deal] ex_grid3)"
  apply (simp add: ex_grid3_diffs ex_grid3_prices np_std_def sq_dev_def mean_def)
  apply (simp add: detect_grid_trading_def unique_def ex_deal_def grid_step_def)
  apply (simp add: ex_grid3_def)
  done


text \<open>
  C7, amended: on a deals table that is not empty, a grid is detected exactly when some
  symbol of the deals table has at least 5 orders, at least 3 of them pending limit
  orders (types 2 and 3), and the population standard deviation of the differences of
  their sorted prices is below 0.3 times the mean difference. Then the confidence is
  0.8 and the grid spacing is the mean difference of such a symbol; otherwise the
  confidence is 0. The five pending limit orders at 1.1000, 1.1010, 1.1020, 1.1030,
  1.1040 of a traded symbol are the witness: grid detected, spacing 0.0010, confidence
  0.8.
\<close>

theorem grid_detection:
  assumes "deals_df \<noteq> []"
  shows "(is_grid (detect_grid_trading deals_df orders_df)
           \<longleftrightarrow> (\<exists>s\<in>set (map symbol deals_df). grid_regular orders_df s))
       \<and> (is_grid (detect_grid_trading deals_df orders_df) \<longrightarrow>
            grid_confidence (detect_grid_trading deals_df orders_df) = 0.8
            \<and> (\<exists>s\<in>set (map symbol deals_df). grid_regular orders_df s
                 \<and> grid_spacing (detect_grid_trading deals_df orders_df)
                     = Some (mean (grid_diffs orders_df s))))
       \<and> (\<not> is_grid (detect_grid_trading deals_df orders_df) \<longrightarrow>
            grid_confidence (detect_grid_trading deals_df orders_df) = 0)"
proof (cases "\<exists>s\<in>set (map symbol deals_df). grid_regular orders_df s")
  case True
  then have "orders_df \<noteq> []" by (auto simp: grid_regular_def)
  moreover from True have "\<exists>s\<in>set (unique (map symbol deals_df)). grid_regular orders_df s"
    by (simp only: set_unique)
  ultimately show ?thesis
    using assms True
      grid_fold_some [of "unique (map symbol deals_df)" orders_df
        "\<lparr>is_grid = False, grid_confidence = 0.0, grid_evidence = Some [], grid_spacing = None\<rparr>"]
    by (simp add: detect_grid_trading_def set_unique)
next
  case False
  then have "\<forall>s\<in>set (unique (map symbol deals_df)). \<not> grid_regular orders_df s"
    by (simp only: set_unique) simp
  from grid_fold_none [OF this] False show ?thesis
    by (simp add: detect_grid_trading_def)
qed

theorem grid_detection_witness:
  "[ex_deal] \<noteq> []
   \<and> is_grid (detect_grid_trading [ex_deal] ex_grid5)
   \<and> grid_confidence (detect_grid_trading [ex_deal] ex_grid5) = 0.8
   \<and> grid_spacing (detect_grid_trading [ex_deal] ex_grid5) = Some 0.001"
proof -
  have ne: "[ex_deal] \<noteq> []" by simp
  have s: "set (map symbol [ex_deal]) = {''EURUSD''}" by (simp add: ex_deal_def)
  have m: "mean (grid_diffs ex_grid5 ''EURUSD'') = 0.001"
    by (simp add: ex_grid5_diffs mean_def)
  show ?thesis
    using grid_detection [OF ne, of ex_grid5] ex_grid5_regular
    unfolding s by (auto simp: m)
qed

section \<open>Confidences lie in the unit interval\<close>

text \<open>
  C4. For all deals and orders tables, and whatever the sort by time does with rows of
  the same timestamp, the confidence of every pattern that a core detector returns,
  the confidence of the result of the grid, news, correlation, hedging and scaling
  detectors, and the confidence of the signature are between 0 and 1. There is no
  clamping in the trading-frequency detector and none is needed: its
  largest branch confidence is 0.85, so with the bonus of 0.05 it is at most 0.9.
\<close>

theorem confidences_in_unit_interval:
  "(\<forall>p. detect_position_sizing_pattern deals_df = Some p \<longrightarrow> 0 \<le> confidence p \<and> confidence p \<le> 1)
   \<and> (\<forall>p. detect_time_based_patterns deals_df = Some p \<longrightarrow> 0 \<le> confidence p \<and> confidence p \<le> 1)
   \<and> (\<forall>p. detect_risk_management_pattern deals_df orders_df = Some p \<longrightarrow>
          0 \<le> confidence p \<and> confidence p \<le> 1)
   \<and> (\<forall>p. detect_trading_frequency_pattern deals_df = Some p \<longrightarrow>
          0 \<le> confidence p \<and> confidence p \<le> 0.9 \<and> confidence p \<le> 1)
   \<and> (\<forall>p. detect_symbol_pattern deals_df = Some p \<longrightarrow> 0 \<le> confidence p \<and> confidence p \<le> 1)
   \<and> 0 \<le> grid_confidence (detect_grid_trading deals_df orders_df)
   \<and> grid_confidence (detect_grid_trading deals_df orders_df) \<le> 1
   \<and> 0 \<le> news_confidence (detect_news_trading deals_df)
   \<and> news_confidence (detect_news_trading deals_df) \<le> 1
   \<and> 0 \<le> correlation_confidence (detect_correlation_trading deals_df)
   \<and> correlation_confidence (detect_correlation_trading deals_df) \<le> 1
   \<and> 0 \<le> hedging_confidence (detect_hedging_strategy srt deals_df)
   \<and> hedging_confidence (detect_hedging_strategy srt deals_df) \<le> 1
   \<and> 0 \<le> scaling_confidence (detect_scaling_in_out srt deals_df)
   \<and> scaling_confidence (detect_scaling_in_out srt deals_df) \<le> 1
   \<and> 0 \<le> sig_confidence (identify_algorithm_type now deals_df orders_df)
   \<and> sig_confidence (identify_algorithm_type now deals_df orders_df) \<le> 1"
proof -
  have f: "\<forall>p. detect_trading_frequency_pattern deals_df = Some p \<longrightarrow>
          0 \<le> confidence p \<and> confidence p \<le> 0.9 \<and> confidence p \<le> 1"
    using frequency_confidence [of deals_df] by fastforce
  show ?thesis
    using position_sizing_confidence [of deals_df] time_based_confidence [of deals_df]
      risk_management_confidence [of deals_df orders_df] f symbol_confidence [of deals_df]
      grid_confidence_bounds [of deals_df orders_df] news_confidence_bounds [of deals_df]
      correlation_confidence_bounds [of deals_df] hedging_confidence_bounds [of srt deals_df]
      scaling_confidence_bounds [of srt deals_df]
      signature_confidence_bounds [of now deals_df orders_df]
    by blast
qed

theorem confidences_in_unit_interval_witness:
  "\<exists>p1 p2 p3 p4 p5.
     detect_position_sizing_pattern ex_two_days = Some p1
     \<and> detect_time_based_patterns ex_two_days = Some p2
     \<and> detect_risk_management_pattern ex_two_days [] = Some p3
     \<and> detect_trading_frequency_pattern ex_two_days = Some p4
     \<and> detect_symbol_pattern ex_two_days = Some p5
     \<and> confidence p4 = 0.75
     \<and> (\<forall>p\<in>{p1, p2, p3, p4, p5}. 0 \<le> confidence p \<and> confidence p \<le> 1)"
proof -
  have ne: "ex_two_days \<noteq> []" by (simp add: ex_two_days_def)
  obtain p1 p2 p3 p5 where a: "detect_position_sizing_pattern ex_two_days = Some p1"
     "detect_time_based_patterns ex_two_days = Some p2"
     "detect_risk_management_pattern ex_two_days [] = Some p3"
     "detect_symbol_pattern ex_two_days = Some p5"
    using position_sizing_fires [OF ne] time_based_fires [OF ne]
      risk_management_fires [OF ne, of "[]"] symbol_fires [OF ne] by blast
  obtain p4 where b: "detect_trading_frequency_pattern ex_two_days = Some p4"
     "confidence p4 = 0.75"
    using ex_two_days_frequency by blast
  show ?thesis
    using a b confidences_in_unit_interval [of ex_two_days "[]" "sort_key time"
        "''2026-01-01T00:00:00''"]
    by auto
qed

end
